theory Spec2Isabelle
  imports Complex_Main "HOL-Library.Multiset"
begin

section \<open>Strings of the Go standard library\<close>

text \<open>
  A Go string is a sequence of bytes; \<open>string\<close> (a list of 8-bit characters) models it.
  \<open>strings.HasPrefix\<close> and \<open>strings.HasSuffix\<close> compare bytes.
\<close>

definition HasPrefix :: "string \<Rightarrow> string \<Rightarrow> bool" where
  "HasPrefix s p = (take (length p) s = p)"

definition HasSuffix :: "string \<Rightarrow> string \<Rightarrow> bool" where
  "HasSuffix s p = (length p \<le> length s \<and> drop (length s - length p) s = p)"

text \<open>
  \<open>strings.TrimSpace\<close> removes leading and trailing Unicode white space
  (\<open>unicode.IsSpace\<close>). \<open>spaceEncodings\<close> lists the UTF-8 encodings of the white-space
  code points: the six ASCII ones (tab, line feed, vertical tab, form feed, carriage
  return, space), U+0085, U+00A0, U+1680, U+2000..U+200A, U+2028, U+2029, U+202F,
  U+205F and U+3000. A string starts (ends) with a white-space rune exactly when it
  starts (ends) with one of these byte sequences.
\<close>

definition asciiSpace :: "char \<Rightarrow> bool" where
  "asciiSpace c = (c = CHR 0x09 \<or> c = CHR 0x0A \<or> c = CHR 0x0B \<or> c = CHR 0x0C
                   \<or> c = CHR 0x0D \<or> c = CHR 0x20)"

definition spaceEncodings :: "string list" where
  "spaceEncodings =
     [[CHR 0x09], [CHR 0x0A], [CHR 0x0B], [CHR 0x0C], [CHR 0x0D], [CHR 0x20],
      [CHR 0xC2, CHR 0x85], [CHR 0xC2, CHR 0xA0],
      [CHR 0xE1, CHR 0x9A, CHR 0x80],
      [CHR 0xE2, CHR 0x80, CHR 0x80], [CHR 0xE2, CHR 0x80, CHR 0x81],
      [CHR 0xE2, CHR 0x80, CHR 0x82], [CHR 0xE2, CHR 0x80, CHR 0x83],
      [CHR 0xE2, CHR 0x80, CHR 0x84], [CHR 0xE2, CHR 0x80, CHR 0x85],
      [CHR 0xE2, CHR 0x80, CHR 0x86], [CHR 0xE2, CHR 0x80, CHR 0x87],
      [CHR 0xE2, CHR 0x80, CHR 0x88], [CHR 0xE2, CHR 0x80, CHR 0x89],
      [CHR 0xE2, CHR 0x80, CHR 0x8A],
      [CHR 0xE2, CHR 0x80, CHR 0xA8], [CHR 0xE2, CHR 0x80, CHR 0xA9],
      [CHR 0xE2, CHR 0x80, CHR 0xAF],
      [CHR 0xE2, CHR 0x81, CHR 0x9F],
      [CHR 0xE3, CHR 0x80, CHR 0x80]]"

definition spaceWidth :: "string \<Rightarrow> nat" where
  "spaceWidth s = (case find (HasPrefix s) spaceEncodings of None \<Rightarrow> 0 | Some e \<Rightarrow> length e)"

definition lastSpaceWidth :: "string \<Rightarrow> nat" where
  "lastSpaceWidth s = (case find (HasSuffix s) spaceEncodings of None \<Rightarrow> 0 | Some e \<Rightarrow> length e)"

function TrimLeft :: "string \<Rightarrow> string" where
  "TrimLeft s = (if spaceWidth s = 0 \<or> s = [] then s else TrimLeft (drop (spaceWidth s) s))"
  by pat_completeness auto
termination
  by (relation "measure length") auto

function TrimRight :: "string \<Rightarrow> string" where
  "TrimRight s = (if lastSpaceWidth s = 0 \<or> s = [] then s
                  else TrimRight (take (length s - lastSpaceWidth s) s))"
  by pat_completeness auto
termination
  by (relation "measure length") auto

declare TrimLeft.simps [simp del] TrimRight.simps [simp del]

definition TrimSpace :: "string \<Rightarrow> string" where
  "TrimSpace s = TrimRight (TrimLeft s)"

text \<open>
  \<open>strings.ToLower\<close>: the ASCII letters A..Z are mapped to a..z. Bytes from 0x80 on are
  left as they are here (Go maps non-ASCII letters through the Unicode tables); no
  statement below depends on them.
\<close>

definition lowerByte :: "char \<Rightarrow> char" where
  "lowerByte c = (let n = (of_char c :: nat) in if 65 \<le> n \<and> n \<le> 90 then char_of (n + 32) else c)"

definition ToLower :: "string \<Rightarrow> string" where
  "ToLower s = map lowerByte s"

section \<open>Configuration\<close>

text \<open>
  The fields of \<open>config.Config\<close> that the modelled functions read
  (\<open>BruteForceConcurrency\<close> is \<open>cfg.MultiThreading.BruteForceConcurrency\<close>).
  \<open>ResultCheckLimit\<close> is read by \<open>PostProcessHosts\<close>; its declaration is not part
  of the sources at hand.
\<close>

record Config =
  EnableDomainValidation :: bool
  ValidationConcurrency :: int
  ExcludePrivateIP :: bool
  BruteForceConcurrency :: int
  ResultCheckLimit :: int

section \<open>Results (internal/core, \<open>SubdomainResult\<close>)\<close>

text \<open>
  \<open>SubdomainResult\<close> and the validator's \<open>ValidationResult\<close> have the same field
  names; the fields of \<open>SubdomainResult\<close> are written with the record's name in
  front.
\<close>

record SubdomainResult =
  Subdomain :: string
  IP :: "string list"
  Status :: int
  Title :: string
  Port :: int
  Alive :: bool
  Source :: string
  Time :: string
  Provider :: string
  DNSResolved :: bool
  PingAlive :: bool
  StatusCode :: int
  StatusText :: string

section \<open>Validator (internal/validator/validator.go)\<close>

record ValidationResult =
  Subdomain :: string
  IP :: "string list"
  Status :: int
  Title :: string
  Port :: int
  Alive :: bool
  Source :: string
  Time :: string
  Provider :: string
  DNSResolved :: bool
  PingAlive :: bool
  StatusCode :: int
  StatusText :: string

text \<open>
  The network as the validator sees it. \<open>LookupHost\<close> is \<open>net.LookupHost\<close> (\<open>None\<close>
  is a non-nil error), \<open>ParseIP\<close> is \<open>net.ParseIP\<close> (\<open>None\<close> is a nil IP),
  \<open>DialTimeout\<close> tells whether \<open>net.DialTimeout("tcp", addr, 5s)\<close> returns without
  error, \<open>Now\<close> is the formatted clock reading.
\<close>

datatype netIP = IP4 nat nat nat nat | IP6

fun To4 :: "netIP \<Rightarrow> (nat \<times> nat \<times> nat \<times> nat) option" where
  "To4 (IP4 a b c d) = Some (a, b, c, d)"
| "To4 IP6 = None"

record NetEnv =
  LookupHost :: "string \<Rightarrow> string list option"
  ParseIP :: "string \<Rightarrow> netIP option"
  DialTimeout :: "string \<Rightarrow> bool"
  Now :: string

definition isPrivateIP :: "netIP \<Rightarrow> bool" where
  "isPrivateIP ip =
     (case To4 ip of
        Some (a, b, c, d) \<Rightarrow> a = 10 \<or> (a = 172 \<and> b \<ge> 16 \<and> b \<le> 31) \<or> (a = 192 \<and> b = 168)
      | None \<Rightarrow> False)"

definition resolveDomain :: "Config \<Rightarrow> NetEnv \<Rightarrow> string \<Rightarrow> string list" where
  "resolveDomain cfg env domain =
     (case LookupHost env domain of
        None \<Rightarrow> []
      | Some addresses \<Rightarrow>
          filter (\<lambda>addr. case ParseIP env addr of
                            None \<Rightarrow> False
                          | Some ip \<Rightarrow> \<not> ExcludePrivateIP cfg \<or> \<not> isPrivateIP ip)
                 addresses)"

definition validatePing :: "NetEnv \<Rightarrow> string \<Rightarrow> bool" where
  "validatePing env ip =
     (if DialTimeout env (ip @ '':80'') then True
      else if DialTimeout env (ip @ '':443'') then True
      else False)"

definition queryIPProvider :: "string \<Rightarrow> string \<Rightarrow> string" where
  "queryIPProvider ip provider =
     (if provider = ''ipinfo.io'' then ''IPInfo''
      else if provider = ''ip-api.com'' then ''IP-API''
      else if provider = ''ipapi.co'' then ''IPAPI''
      else if provider = ''ipgeolocation.io'' then ''IPGeolocation''
      else '''')"

fun firstProvider :: "string \<Rightarrow> string list \<Rightarrow> string" where
  "firstProvider ip [] = ''Unknown''"
| "firstProvider ip (p # ps) =
     (if queryIPProvider ip p \<noteq> '''' then queryIPProvider ip p else firstProvider ip ps)"

definition getIPProvider :: "string \<Rightarrow> string" where
  "getIPProvider ip = firstProvider ip [''ipinfo.io'', ''ip-api.com'', ''ipapi.co'', ''ipgeolocation.io'']"

definition validateSingleDomain :: "Config \<Rightarrow> NetEnv \<Rightarrow> string \<Rightarrow> ValidationResult" where
  "validateSingleDomain cfg env domain =
     (let result = \<lparr> Subdomain = domain, IP = [], Status = 0, Title = '''', Port = 0,
                      Alive = False, Source = ''validator'', Time = Now env, Provider = '''',
                      DNSResolved = False, PingAlive = False, StatusCode = 0, StatusText = '''' \<rparr>;
          ips = resolveDomain cfg env domain
      in if length ips > 0 then
           (let result = result\<lparr> IP := ips, DNSResolved := True \<rparr>;
                result = result\<lparr> PingAlive := validatePing env (hd ips) \<rparr>
            in if PingAlive result then
                 result\<lparr> Alive := True, StatusCode := 200, StatusText := ''Alive'',
                         Provider := getIPProvider (hd ips) \<rparr>
               else result\<lparr> StatusCode := 0, StatusText := ''Ping Failed'' \<rparr>)
         else result\<lparr> StatusCode := - 1, StatusText := ''DNS Resolution Failed'' \<rparr>)"

fun dedupLoop :: "string set \<Rightarrow> string list \<Rightarrow> string list" where
  "dedupLoop seen [] = []"
| "dedupLoop seen (domain # domains) =
     (let normalized = ToLower (TrimSpace domain)
      in if normalized \<noteq> '''' \<and> normalized \<notin> seen
         then normalized # dedupLoop (insert normalized seen) domains
         else dedupLoop seen domains)"

definition deduplicateDomains :: "string list \<Rightarrow> string list" where
  "deduplicateDomains domains = dedupLoop {} domains"

section \<open>Brute-force engine (internal/brute/brute.go)\<close>

datatype error =
    ExchangeError
  | NoARecord string
  | NoCNAMERecord string
  | OpenWordlistFailed string
  | ReadWordlistError

text \<open>
  A DNS answer is a list of resource records. \<open>Exchange env server (name, type)\<close> is
  \<open>client.Exchange(msg, server)\<close> for the question \<open>(name, type)\<close>; \<open>None\<close> is a
  non-nil error, \<open>Some rrs\<close> the answer section of the response.
\<close>

datatype RR = A string | CNAME string | NS string | OtherRR

datatype qtype = TypeA | TypeCNAME | TypeNS

text \<open>
  The world outside the engine. \<open>OpenScan path\<close> is \<open>os.Open\<close> followed by a
  \<open>bufio.Scanner\<close> loop: \<open>None\<close> when the file cannot be opened, otherwise the lines
  that \<open>scanner.Text()\<close> delivers and whether \<open>scanner.Err()\<close> is non-nil afterwards.
  \<open>ReadFileLines path\<close> is \<open>os.ReadFile\<close> followed by \<open>strings.Split(data, "\n")\<close>.
  \<open>RandDraws\<close> are the outcomes of the successive calls of \<open>rand.Int\<close> (\<open>None\<close> is
  an error), \<open>UnixNow\<close> the decimal rendering of \<open>time.Now().Unix()\<close>.
\<close>

record BruteEnv =
  Exchange :: "string \<Rightarrow> string \<times> qtype \<Rightarrow> RR list option"
  OpenScan :: "string \<Rightarrow> (string list \<times> bool) option"
  ReadFileLines :: "string \<Rightarrow> string list option"
  RandDraws :: "nat option list"
  UnixNow :: string

record BruteResult =
  Subdomain :: string
  IPs :: "string list"
  CNAMEs :: "string list"
  TTLs :: "int list"
  Valid :: bool

text \<open>
  \<open>float64\<close> values are modelled as rationals; Go maps keyed by strings whose
  entries are enumerated or counted are association lists.
\<close>

record WildcardDetectionResult =
  IsWildcard :: bool
  SuccessRate :: rat
  IPRepeatRate :: rat
  TestCount :: int
  SuccessCount :: int
  UniqueIPs :: int
  TotalIPs :: int
  TestSubdomains :: "string list"
  TestResults :: "(string \<times> BruteResult) list"

record Brute =
  domain :: string
  wordlist :: string
  nextlist :: string
  concurrent :: int
  recursive :: bool
  depth :: int
  enableWildcard :: bool
  wildcardIPs :: "string list"
  nameservers :: "string list"
  results :: "(string \<times> BruteResult) list"
  totalCount :: int
  processedCount :: int
  successCount :: int

text \<open>Assignment \<open>m[k] = v\<close> and increment \<open>m[k]++\<close> on a Go map.\<close>

fun assign :: "'k \<Rightarrow> 'v \<Rightarrow> ('k \<times> 'v) list \<Rightarrow> ('k \<times> 'v) list" where
  "assign k v [] = [(k, v)]"
| "assign k v ((k', v') # m) = (if k' = k then (k, v) # m else (k', v') # assign k v m)"

fun increment :: "'k \<Rightarrow> ('k \<times> int) list \<Rightarrow> ('k \<times> int) list" where
  "increment k [] = [(k, 1)]"
| "increment k ((k', c) # m) = (if k' = k then (k, c + 1) # m else (k', c) # increment k m)"

definition TrimSuffix :: "string \<Rightarrow> string \<Rightarrow> string" where
  "TrimSuffix s suffix = (if HasSuffix s suffix then take (length s - length suffix) s else s)"

definition initDictPaths :: "Brute \<Rightarrow> Brute" where
  "initDictPaths b = b\<lparr> wordlist := ''data/subnames.txt'', nextlist := ''data/subnames_next.txt'' \<rparr>"

definition NewBrute :: "Config \<Rightarrow> Brute" where
  "NewBrute cfg =
     (let brute = \<lparr> domain = [], wordlist = [], nextlist = [], concurrent = 20, recursive = False,
                     depth = 1, enableWildcard = False, wildcardIPs = [], nameservers = [],
                     results = [], totalCount = 0, processedCount = 0, successCount = 0 \<rparr>;
          brute = (if BruteForceConcurrency cfg > 0
                   then brute\<lparr> concurrent := BruteForceConcurrency cfg \<rparr> else brute)
      in initDictPaths brute)"

definition queryNS :: "BruteEnv \<Rightarrow> string \<Rightarrow> error + string list" where
  "queryNS env target =
     (case Exchange env ''8.8.8.8:53'' (target, TypeNS) of
        None \<Rightarrow> Inl ExchangeError
      | Some answer \<Rightarrow>
          Inr (concat (map (\<lambda>rr. case rr of NS ns \<Rightarrow> [TrimSuffix ns ''.''] | _ \<Rightarrow> []) answer)))"

fun queryA_servers :: "BruteEnv \<Rightarrow> string \<Rightarrow> string list \<Rightarrow> error + string list" where
  "queryA_servers env target [] = Inl (NoARecord target)"
| "queryA_servers env target (nameserver # rest) =
     (case Exchange env (nameserver @ '':53'') (target, TypeA) of
        None \<Rightarrow> queryA_servers env target rest
      | Some answer \<Rightarrow>
          (let ips = concat (map (\<lambda>rr. case rr of A a \<Rightarrow> [a] | _ \<Rightarrow> []) answer)
           in if length ips > 0 then Inr ips else queryA_servers env target rest))"

definition queryA :: "Brute \<Rightarrow> BruteEnv \<Rightarrow> string \<Rightarrow> error + string list" where
  "queryA b env target = queryA_servers env target (nameservers b)"

fun queryCNAME_servers :: "BruteEnv \<Rightarrow> string \<Rightarrow> string list \<Rightarrow> error + string list" where
  "queryCNAME_servers env target [] = Inl (NoCNAMERecord target)"
| "queryCNAME_servers env target (nameserver # rest) =
     (case Exchange env (nameserver @ '':53'') (target, TypeCNAME) of
        None \<Rightarrow> queryCNAME_servers env target rest
      | Some answer \<Rightarrow>
          (let cnames = concat (map (\<lambda>rr. case rr of CNAME t \<Rightarrow> [TrimSuffix t ''.''] | _ \<Rightarrow> []) answer)
           in if length cnames > 0 then Inr cnames else queryCNAME_servers env target rest))"

definition queryCNAME :: "Brute \<Rightarrow> BruteEnv \<Rightarrow> string \<Rightarrow> error + string list" where
  "queryCNAME b env target = queryCNAME_servers env target (nameservers b)"

definition getPublicNameservers :: "BruteEnv \<Rightarrow> string list" where
  "getPublicNameservers env =
     (let nameservers =
            (case ReadFileLines env ''data/nameservers.txt'' of
               None \<Rightarrow> []
             | Some lines \<Rightarrow>
                 filter (\<lambda>line. line \<noteq> '''' \<and> \<not> HasPrefix line ''#'') (map TrimSpace lines))
      in if length nameservers = 0
         then [''8.8.8.8'', ''8.8.4.4'', ''1.1.1.1'', ''1.0.0.1'', ''114.114.114.114'', ''114.114.115.115'']
         else nameservers)"

text \<open>
  The loop of \<open>getNameservers\<close> over the NS records; \<open>queryA\<close> reads the name
  servers gathered so far.
\<close>

fun nsLoop :: "BruteEnv \<Rightarrow> Brute \<Rightarrow> string list \<Rightarrow> Brute" where
  "nsLoop env b [] = b"
| "nsLoop env b (ns # rest) =
     (case queryA b env ns of
        Inl e \<Rightarrow> nsLoop env b rest
      | Inr ips \<Rightarrow> nsLoop env (b\<lparr> nameservers := nameservers b @ ips \<rparr>) rest)"

definition getNameservers :: "Brute \<Rightarrow> BruteEnv \<Rightarrow> string \<Rightarrow> Brute \<times> error option" where
  "getNameservers b env target =
     (case queryNS env target of
        Inl e \<Rightarrow> (b, Some e)
      | Inr nsRecords \<Rightarrow>
          (let b = nsLoop env b nsRecords;
               b = (if length (nameservers b) = 0
                    then b\<lparr> nameservers := getPublicNameservers env \<rparr> else b)
           in (b, None)))"

definition querySubdomain :: "Brute \<Rightarrow> BruteEnv \<Rightarrow> string \<Rightarrow> BruteResult" where
  "querySubdomain b env subdomain =
     (let result = \<lparr> BruteResult.Subdomain = subdomain, IPs = [], CNAMEs = [], TTLs = [], Valid = False \<rparr>
      in case queryA b env subdomain of
           Inl e \<Rightarrow> result
         | Inr ips \<Rightarrow> if length ips > 0 then result\<lparr> IPs := ips, Valid := True \<rparr> else result)"

definition isValidSubdomain :: "BruteResult \<Rightarrow> bool" where
  "isValidSubdomain result =
     (if length (IPs result) > 0 \<or> length (CNAMEs result) > 0 then True else False)"

definition loadWordlist :: "Brute \<Rightarrow> BruteEnv \<Rightarrow> string list" where
  "loadWordlist b env =
     (let words =
            (if wordlist b \<noteq> '''' then
               (case OpenScan env (wordlist b) of
                  None \<Rightarrow> []
                | Some (lines, err) \<Rightarrow> filter (\<lambda>word. word \<noteq> '''') (map TrimSpace lines))
             else [])
      in if length words = 0
         then [''test'', ''www'', ''mail'', ''ftp'', ''admin'', ''blog'', ''api'', ''dev'', ''stage'', ''prod'',
               ''app'', ''web'', ''cdn'', ''static'', ''img'', ''css'', ''js'', ''docs'', ''help'', ''support'']
         else words)"

text \<open>
  The selection loop of \<open>selectRandomWords\<close> runs until \<open>count\<close> distinct indexes have
  been drawn. It consumes the random draws; \<open>None\<close> says that the draws at hand ran out
  before the loop ended. A draw is an index below \<open>len(words)\<close>.
\<close>

fun selectLoop :: "string list \<Rightarrow> int \<Rightarrow> string list \<Rightarrow> nat set \<Rightarrow> nat option list \<Rightarrow> string list option" where
  "selectLoop words cnt selected used [] =
     (if int (length selected) < cnt then None else Some selected)"
| "selectLoop words cnt selected used (d # ds) =
     (if int (length selected) < cnt then
        (case d of
           None \<Rightarrow> selectLoop words cnt selected used ds
         | Some randomIndex \<Rightarrow>
             (if randomIndex < length words then
                (if randomIndex \<notin> used
                 then selectLoop words cnt (selected @ [words ! randomIndex]) (insert randomIndex used) ds
                 else selectLoop words cnt selected used ds)
              else None))
      else Some selected)"

definition selectRandomWords :: "BruteEnv \<Rightarrow> string list \<Rightarrow> int \<Rightarrow> string list option" where
  "selectRandomWords env words cnt =
     (if int (length words) \<le> cnt then Some words
      else selectLoop words cnt [] {} (RandDraws env))"

definition generateRandomTestSubdomains :: "Brute \<Rightarrow> BruteEnv \<Rightarrow> string \<Rightarrow> int \<Rightarrow> string list option" where
  "generateRandomTestSubdomains b env target cnt =
     (case selectRandomWords env (loadWordlist b env) cnt of
        None \<Rightarrow> None
      | Some testWords \<Rightarrow> Some (map (\<lambda>word. word @ ''.'' @ target) testWords))"

definition calculateStatistics :: "WildcardDetectionResult \<Rightarrow> (string \<times> int) list \<Rightarrow> WildcardDetectionResult" where
  "calculateStatistics r allIPs =
     (let r = (if TestCount r > 0
               then r\<lparr> SuccessRate := of_int (SuccessCount r) / of_int (TestCount r) * 100 \<rparr>
               else r);
          r = r\<lparr> UniqueIPs := int (length allIPs) \<rparr>;
          r = r\<lparr> TotalIPs := sum_list (map snd allIPs) \<rparr>
      in if TotalIPs r > 0
         then r\<lparr> IPRepeatRate := of_int (TotalIPs r - UniqueIPs r) / of_int (TotalIPs r) * 100 \<rparr>
         else r)"

text \<open>
  \<open>detectWildcardAdvanced\<close> and \<open>bruteSubdomains\<close> start one goroutine per task,
  after a send on \<open>semaphore := make(chan struct{}, b.concurrent)\<close>. A negative
  capacity makes \<open>make\<close> panic; with capacity 0 the first send blocks for ever.
  With a positive capacity every send succeeds, since every goroutine ends and
  receives from the channel. \<open>semaphoreOk\<close> tells whether the loop over the tasks
  comes to its end.
\<close>

definition semaphoreOk :: "Brute \<Rightarrow> string list \<Rightarrow> bool" where
  "semaphoreOk b tasks = (concurrent b > 0 \<or> (concurrent b = 0 \<and> tasks = []))"

text \<open>
  The probes of \<open>detectWildcardAdvanced\<close> run concurrently; each one updates the
  shared result and the IP counts under one mutex, so the run is a sequence of these
  updates in some order. Counts and sums do not depend on that order; the model takes
  the order of the test subdomains. \<open>detectWildcardAdvanced\<close> is \<open>None\<close> when the
  call does not return: the random draws at hand ran out, or the semaphore could not be
  created or acquired.
\<close>

definition probeUpdate :: "Brute \<Rightarrow> BruteEnv \<Rightarrow> WildcardDetectionResult \<times> (string \<times> int) list \<Rightarrow> string
    \<Rightarrow> WildcardDetectionResult \<times> (string \<times> int) list" where
  "probeUpdate b env st subdomain =
     (let result = fst st; allIPs = snd st;
          bruteResult = querySubdomain b env subdomain;
          result = result\<lparr> TestResults := assign subdomain bruteResult (TestResults result) \<rparr>
      in if Valid bruteResult
         then (result\<lparr> SuccessCount := SuccessCount result + 1 \<rparr>,
               foldl (\<lambda>m ip. increment ip m) allIPs (IPs bruteResult))
         else (result, allIPs))"

definition detectWildcardAdvanced :: "Brute \<Rightarrow> BruteEnv \<Rightarrow> string \<Rightarrow> WildcardDetectionResult option" where
  "detectWildcardAdvanced b env target =
     (let result = \<lparr> IsWildcard = False, SuccessRate = 0, IPRepeatRate = 0, TestCount = 20,
                      SuccessCount = 0, UniqueIPs = 0, TotalIPs = 0, TestSubdomains = [],
                      TestResults = [] \<rparr>
      in case generateRandomTestSubdomains b env target (TestCount result) of
           None \<Rightarrow> None
         | Some testSubdomains \<Rightarrow>
             if \<not> semaphoreOk b testSubdomains then None
             else
               (let result = result\<lparr> TestSubdomains := testSubdomains \<rparr>;
                    st = foldl (probeUpdate b env) (result, []) testSubdomains;
                    result = calculateStatistics (fst st) (snd st)
                in Some (result\<lparr> IsWildcard := (SuccessRate result > 90 \<and> IPRepeatRate result > 50) \<rparr>)))"

definition detectWildcard :: "Brute \<Rightarrow> BruteEnv \<Rightarrow> string \<Rightarrow> Brute" where
  "detectWildcard b env target =
     (let randomSubdomains = [''test'' @ UnixNow env @ ''.'' @ target, ''random'' @ UnixNow env @ ''.'' @ target];
          testIPs = concat (map (\<lambda>subdomain. case queryA b env subdomain of Inl e \<Rightarrow> [] | Inr ips \<Rightarrow> ips)
                                randomSubdomains)
      in if length testIPs > 0 then b\<lparr> enableWildcard := True, wildcardIPs := testIPs \<rparr> else b)"

definition generateDict :: "Brute \<Rightarrow> BruteEnv \<Rightarrow> string \<Rightarrow> error + string list" where
  "generateDict b env target =
     (let wordlist = (if recursive b then nextlist b else wordlist b)
      in case OpenScan env wordlist of
           None \<Rightarrow> Inl (OpenWordlistFailed wordlist)
         | Some (lines, err) \<Rightarrow>
             (let subdomains =
                    map (\<lambda>word. word @ ''.'' @ target)
                        (filter (\<lambda>word. \<not> (word = '''' \<or> HasPrefix word ''#'')) (map TrimSpace lines))
              in if err then Inl ReadWordlistError else Inr subdomains))"

text \<open>
  The workers of \<open>bruteSubdomains\<close> update the engine under one mutex, one candidate
  at a time; the model takes the order of the candidates.
\<close>

definition bruteUpdate :: "BruteEnv \<Rightarrow> Brute \<Rightarrow> string \<Rightarrow> Brute" where
  "bruteUpdate env b subdomain =
     (let result = querySubdomain b env subdomain
      in if isValidSubdomain result then
           (let b = b\<lparr> results := assign subdomain result (results b),
                        processedCount := processedCount b + 1 \<rparr>
            in if Valid result then b\<lparr> successCount := successCount b + 1 \<rparr> else b)
         else b\<lparr> processedCount := processedCount b + 1 \<rparr>)"

definition bruteSubdomains :: "Brute \<Rightarrow> BruteEnv \<Rightarrow> string \<Rightarrow> string list \<Rightarrow> Brute option" where
  "bruteSubdomains b env target subdomains =
     (if \<not> semaphoreOk b subdomains then None
      else Some (foldl (bruteUpdate env) b subdomains))"

text \<open>
  \<open>Run\<close> returns the engine as it has left it and the pair of the Go function,
  \<open>Inl\<close> for a non-nil error. \<open>None\<close>: the call does not return, because the random
  draws at hand did not suffice for the wildcard detection or because a semaphore could
  not be created or acquired. The subdomains of the result are enumerated from a Go map,
  in no specified order; the model lists them in the order of their first insertion.
\<close>

definition Run :: "Brute \<Rightarrow> BruteEnv \<Rightarrow> string \<Rightarrow> (Brute \<times> (error + string list)) option" where
  "Run b0 env target =
     (let b = initDictPaths b0
      in case getNameservers b env target of
           (b, Some err) \<Rightarrow> Some (b, Inl err)
         | (b, None) \<Rightarrow>
             (case detectWildcardAdvanced b env target of
                None \<Rightarrow> None
              | Some wildcardResult \<Rightarrow>
                  if IsWildcard wildcardResult then Some (b, Inr [])
                  else
                    (let b = detectWildcard b env target
                     in case generateDict b env target of
                          Inl err \<Rightarrow> Some (b, Inl err)
                        | Inr subdomains \<Rightarrow>
                            (let b = b\<lparr> totalCount := int (length subdomains),
                                         processedCount := 0, successCount := 0 \<rparr>
                             in case bruteSubdomains b env target subdomains of
                                  None \<Rightarrow> None
                                | Some b \<Rightarrow>
                                    Some (b, Inr (map fst (filter (\<lambda>(subdomain, result). Valid result)
                                                                  (results b))))))))"

section \<open>Post-processor (internal/core, \<open>PostProcessHosts\<close>)\<close>

text \<open>
  The HTTP side. \<open>ClientDo env scheme host\<close> is the GET request for
  \<open>scheme://host\<close>: \<open>None\<close> when \<open>http.NewRequest\<close> or \<open>client.Do\<close> returns an
  error, otherwise the status code of the response and the body read. \<open>PageTitle\<close> is
  what \<open>fetchOnce\<close> computes from the body of a 200 response: the first
  \<open><title>\<close> match, unescaped, trimmed, with its white space collapsed, or the empty
  string when there is no match. \<open>HttpStatusText\<close> is \<open>http.StatusText\<close> and
  \<open>NowRFC3339\<close> the formatted clock reading.
\<close>

record HttpEnv =
  ClientDo :: "string \<Rightarrow> string \<Rightarrow> (int \<times> string) option"
  PageTitle :: "string \<Rightarrow> string"
  HttpStatusText :: "int \<Rightarrow> string"
  NowRFC3339 :: string

definition fetchOnce :: "HttpEnv \<Rightarrow> string \<Rightarrow> string \<Rightarrow> int \<times> string" where
  "fetchOnce env scheme h =
     (case ClientDo env scheme h of
        None \<Rightarrow> (0, '''')
      | Some (code, body) \<Rightarrow> (code, if code = 200 then PageTitle env body else ''''))"

fun uniqueLoop :: "string set \<Rightarrow> string list \<Rightarrow> string list" where
  "uniqueLoop seen [] = []"
| "uniqueLoop seen (v # rest) =
     (let v = TrimSpace (ToLower v)
      in if v = '''' then uniqueLoop seen rest
         else if v \<in> seen then uniqueLoop seen rest
         else v # uniqueLoop (insert v seen) rest)"

definition uniqueStrings :: "string list \<Rightarrow> string list" where
  "uniqueStrings xs = uniqueLoop {} xs"

record tmp =
  host :: string
  status :: int
  title :: string
  protocol :: string

text \<open>
  The first part of the closure \<open>fetch\<close>, which touches no shared variable: HTTPS
  first, then HTTP when the status is not 200. The result is the final status, the
  title and the protocol.
\<close>

definition probe :: "HttpEnv \<Rightarrow> string \<Rightarrow> int \<times> string \<times> string" where
  "probe env h =
     (let (status, title) = fetchOnce env ''https'' h
      in if status \<noteq> 200
         then (let (status, title) = fetchOnce env ''http'' h in (status, title, ''http''))
         else (status, title, ''https''))"

text \<open>
  The shared variables of \<open>PostProcessHosts\<close>, and the second part of \<open>fetch\<close>,
  which runs under the mutex.
\<close>

record fetched =
  okByTitle :: "string \<rightharpoonup> tmp"
  okOrdered :: "tmp list"
  forbidden :: "tmp list"

definition fetch :: "HttpEnv \<Rightarrow> fetched \<Rightarrow> string \<Rightarrow> fetched" where
  "fetch env st h =
     (let (status, title, protocol) = probe env h
      in if status = 200 then
           (if okByTitle st title = None then
              (let rec = \<lparr> host = h, status = status, title = TrimSpace title, protocol = protocol \<rparr>
               in st\<lparr> okByTitle := (okByTitle st)(title \<mapsto> rec), okOrdered := okOrdered st @ [rec] \<rparr>)
            else st)
         else if status = 403 then
           st\<lparr> forbidden := forbidden st @
                 [\<lparr> host = h, status = status, title = TrimSpace title, protocol = protocol \<rparr>] \<rparr>
         else st)"

definition portOf :: "string \<Rightarrow> int" where
  "portOf p = (if p = ''http'' then 80 else if p = ''https'' then 443 else 0)"

definition toResult :: "HttpEnv \<Rightarrow> bool \<Rightarrow> tmp \<Rightarrow> SubdomainResult" where
  "toResult env alive r =
     \<lparr> SubdomainResult.Subdomain = host r, SubdomainResult.IP = [],
       SubdomainResult.Status = status r, SubdomainResult.Title = title r,
       SubdomainResult.Port = portOf (protocol r), SubdomainResult.Alive = alive,
       SubdomainResult.Source = ''postprocess'', SubdomainResult.Time = NowRFC3339 env,
       SubdomainResult.Provider = '''', SubdomainResult.DNSResolved = False,
       SubdomainResult.PingAlive = False, SubdomainResult.StatusCode = status r,
       SubdomainResult.StatusText = HttpStatusText env (status r) \<rparr>"

text \<open>
  \<open>PostProcessHosts\<close> starts one goroutine per element of \<open>uniqueStrings hosts\<close>;
  each probes its host and then updates the shared variables under the mutex. The
  argument \<open>order\<close> is the order in which the goroutines take the mutex, a
  permutation of \<open>uniqueStrings hosts\<close> (\<open>completionOrder\<close>). The result is \<open>None\<close>
  when the call does not return: \<open>make(chan struct{}, cfg.ValidationConcurrency)\<close>
  panics for a negative capacity, and with capacity 0 no goroutine ever passes the
  send on the channel. The \<open>nil\<close> slice is the empty list.
\<close>

definition completionOrder :: "string list \<Rightarrow> string list \<Rightarrow> bool" where
  "completionOrder order hosts = (mset order = mset (uniqueStrings hosts))"

definition checkLimit :: "Config \<Rightarrow> int" where
  "checkLimit cfg = (if ResultCheckLimit cfg \<le> 0 then 30 else ResultCheckLimit cfg)"

definition PostProcessHosts :: "HttpEnv \<Rightarrow> string list \<Rightarrow> string list \<Rightarrow> Config
    \<Rightarrow> SubdomainResult list option" where
  "PostProcessHosts env order hosts cfg =
     (let limit = checkLimit cfg
      in if int (length hosts) \<le> limit then Some []
         else if ValidationConcurrency cfg < 0 then None
         else if ValidationConcurrency cfg = 0 \<and> uniqueStrings hosts \<noteq> [] then None
         else
           (let st = foldl (fetch env) \<lparr> okByTitle = Map.empty, okOrdered = [], forbidden = [] \<rparr> order;
                appendForbidden = (if int (length (forbidden st)) > limit
                                   then take 1 (forbidden st) else forbidden st)
            in Some (map (toResult env True) (okOrdered st)
                     @ map (toResult env False) appendForbidden)))"

section \<open>Concrete inputs\<close>

text \<open>Configurations and environments at which the statements below are evaluated.\<close>

definition cfg0 :: Config where
  "cfg0 = \<lparr> EnableDomainValidation = True, ValidationConcurrency = 50,
             ExcludePrivateIP = True, BruteForceConcurrency = 2000, ResultCheckLimit = 30 \<rparr>"

text \<open>A network where no name resolves; one where the host resolves and no port
  answers; one where the host resolves and only port 443 answers.\<close>

definition netDown :: NetEnv where
  "netDown = \<lparr> LookupHost = (\<lambda>h. None), ParseIP = (\<lambda>a. None),
                DialTimeout = (\<lambda>a. False), Now = ''2024-01-01 00:00:00'' \<rparr>"

definition netClosed :: NetEnv where
  "netClosed = \<lparr> LookupHost = (\<lambda>h. Some [''1.2.3.4'']), ParseIP = (\<lambda>a. Some (IP4 1 2 3 4)),
                  DialTimeout = (\<lambda>a. False), Now = ''2024-01-01 00:00:00'' \<rparr>"

definition netTLS :: NetEnv where
  "netTLS = \<lparr> LookupHost = (\<lambda>h. Some [''1.2.3.4'']), ParseIP = (\<lambda>a. Some (IP4 1 2 3 4)),
               DialTimeout = (\<lambda>a. a = ''1.2.3.4:443''), Now = ''2024-01-01 00:00:00'' \<rparr>"

text \<open>A network where the host resolves to the private address 10.0.0.5, whose port
  80 answers; and one where it resolves to 10.0.0.5 and 1.2.3.4, in this order, and
  only port 80 of 10.0.0.5 answers.\<close>

definition netPrivate :: NetEnv where
  "netPrivate = \<lparr> LookupHost = (\<lambda>h. Some [''10.0.0.5'']),
                   ParseIP = (\<lambda>a. if a = ''10.0.0.5'' then Some (IP4 10 0 0 5) else None),
                   DialTimeout = (\<lambda>a. a = ''10.0.0.5:80''), Now = ''2024-01-01 00:00:00'' \<rparr>"

definition netMixed :: NetEnv where
  "netMixed = \<lparr> LookupHost = (\<lambda>h. Some [''10.0.0.5'', ''1.2.3.4'']),
                 ParseIP = (\<lambda>a. if a = ''10.0.0.5'' then Some (IP4 10 0 0 5)
                                else if a = ''1.2.3.4'' then Some (IP4 1 2 3 4) else None),
                 DialTimeout = (\<lambda>a. a = ''10.0.0.5:80''), Now = ''2024-01-01 00:00:00'' \<rparr>"

text \<open>
  DNS stubs. Neither stub knows a name server for the target, no wordlist file exists.
  \<open>sameIPEnv\<close> answers every A question with the one address 5.5.5.5;
  \<open>deadEnv\<close> answers no A question; \<open>cnameEnv\<close> answers every A and CNAME
  question with a CNAME record only.
\<close>

definition sameIPEnv :: BruteEnv where
  "sameIPEnv = \<lparr> Exchange = (\<lambda>server q. if snd q = TypeA then Some [A ''5.5.5.5''] else Some []),
                  OpenScan = (\<lambda>path. None), ReadFileLines = (\<lambda>path. None),
                  RandDraws = [], UnixNow = ''1700000000'' \<rparr>"


definition cnameEnv :: BruteEnv where
  "cnameEnv = \<lparr> Exchange = (\<lambda>server q. if snd q = TypeNS then Some [] else Some [CNAME ''cdn.example.net.'']),
                 OpenScan = (\<lambda>path. None), ReadFileLines = (\<lambda>path. None),
                 RandDraws = [], UnixNow = ''1700000000'' \<rparr>"

text \<open>The engine after \<open>getNameservers\<close> has fallen back to the public resolvers.\<close>

definition publicBrute :: Brute where
  "publicBrute = (NewBrute cfg0)\<lparr> nameservers :=
      [''8.8.8.8'', ''8.8.4.4'', ''1.1.1.1'', ''1.0.0.1'', ''114.114.114.114'', ''114.114.115.115''] \<rparr>"

definition defaultWords :: "string list" where
  "defaultWords =
     [''test'', ''www'', ''mail'', ''ftp'', ''admin'', ''blog'', ''api'', ''dev'', ''stage'', ''prod'',
      ''app'', ''web'', ''cdn'', ''static'', ''img'', ''css'', ''js'', ''docs'', ''help'', ''support'']"

text \<open>A wordlist file with a label that has a space inside, a comment, a blank line
  and a padded label.\<close>

definition wsEnv :: BruteEnv where
  "wsEnv = \<lparr> Exchange = (\<lambda>server q. None),
              OpenScan = (\<lambda>path. Some ([''a b'', ''# comment'', '''', ''  www  ''], False)),
              ReadFileLines = (\<lambda>path. None), RandDraws = [], UnixNow = ''1700000000'' \<rparr>"

section \<open>Validator: classification of a candidate\<close>

text \<open>
  \<open>resolveDomain\<close> keeps, of the addresses that the lookup returns and in their
  order, those that parse as an IP address and, when \<open>ExcludePrivateIP\<close> is set,
  are not private.
\<close>

lemma resolveDomain_None: "LookupHost env d = None \<Longrightarrow> resolveDomain cfg env d = []"
  by (simp add: resolveDomain_def)

lemma resolveDomain_Some:
  "LookupHost env d = Some addresses \<Longrightarrow>
   resolveDomain cfg env d =
     filter (\<lambda>addr. \<exists>ip. ParseIP env addr = Some ip \<and> (ExcludePrivateIP cfg \<longrightarrow> \<not> isPrivateIP ip))
            addresses"
  by (auto simp: resolveDomain_def intro!: filter_cong split: option.splits)

lemma validateSingleDomain_unresolved:
  "resolveDomain cfg env d = [] \<Longrightarrow>
   IP (validateSingleDomain cfg env d) = []
   \<and> \<not> DNSResolved (validateSingleDomain cfg env d)
   \<and> \<not> PingAlive (validateSingleDomain cfg env d)
   \<and> \<not> Alive (validateSingleDomain cfg env d)
   \<and> StatusCode (validateSingleDomain cfg env d) = - 1
   \<and> StatusText (validateSingleDomain cfg env d) = ''DNS Resolution Failed''"
  by (simp add: validateSingleDomain_def Let_def)

lemma validateSingleDomain_resolved:
  "resolveDomain cfg env d = a # rest \<Longrightarrow>
   IP (validateSingleDomain cfg env d) = a # rest
   \<and> DNSResolved (validateSingleDomain cfg env d)
   \<and> PingAlive (validateSingleDomain cfg env d)
       = (DialTimeout env (a @ '':80'') \<or> DialTimeout env (a @ '':443''))
   \<and> Alive (validateSingleDomain cfg env d)
       = (DialTimeout env (a @ '':80'') \<or> DialTimeout env (a @ '':443''))
   \<and> StatusCode (validateSingleDomain cfg env d)
       = (if DialTimeout env (a @ '':80'') \<or> DialTimeout env (a @ '':443'') then 200 else 0)
   \<and> StatusText (validateSingleDomain cfg env d)
       = (if DialTimeout env (a @ '':80'') \<or> DialTimeout env (a @ '':443'') then ''Alive''
          else ''Ping Failed'')"
  by (simp add: validateSingleDomain_def validatePing_def Let_def)

text \<open>
  C1 (amended). For every candidate passed to the Validator, call an address that
  the DNS lookup returned \<^emph>\<open>usable\<close> when it parses as an IP address and, if the
  configuration excludes private addresses (\<open>ExcludePrivateIP\<close>), it is not in
  10.0.0.0/8, 172.16.0.0/12 or 192.168.0.0/16.

  \<^item> If the lookup fails, or none of the returned addresses is usable, the result has
    no IP, dnsResolved, pingAlive and alive false, status code -1 and status text
    "DNS Resolution Failed".
  \<^item> If \<open>ip\<close> is the first usable address and the TCP connect to \<open>ip\<close> fails on
    port 80 and on port 443, the result lists the usable addresses, has dnsResolved
    true, pingAlive and alive false, status code 0 and status text "Ping Failed".
  \<^item> If \<open>ip\<close> is the first usable address and the connect to \<open>ip\<close> succeeds on
    port 80 or on port 443, the result lists the usable addresses, has dnsResolved,
    pingAlive and alive true, status code 200 and status text "Alive".
\<close>

theorem validateSingleDomain_classifies:
  fixes cfg :: Config and env :: NetEnv and domain :: string
  defines "r \<equiv> validateSingleDomain cfg env domain"
      and "usable \<equiv> \<lambda>addr. \<exists>ip. ParseIP env addr = Some ip
                                  \<and> (ExcludePrivateIP cfg \<longrightarrow> \<not> isPrivateIP ip)"
  shows "(LookupHost env domain = None
          \<or> (\<exists>addresses. LookupHost env domain = Some addresses \<and> filter usable addresses = []) \<longrightarrow>
            IP r = [] \<and> \<not> DNSResolved r \<and> \<not> PingAlive r \<and> \<not> Alive r \<and> StatusCode r = - 1
            \<and> StatusText r = ''DNS Resolution Failed'')
       \<and> (\<forall>addresses ip rest.
            LookupHost env domain = Some addresses \<and> filter usable addresses = ip # rest
            \<and> \<not> DialTimeout env (ip @ '':80'') \<and> \<not> DialTimeout env (ip @ '':443'') \<longrightarrow>
              IP r = ip # rest \<and> DNSResolved r \<and> \<not> PingAlive r \<and> \<not> Alive r \<and> StatusCode r = 0
              \<and> StatusText r = ''Ping Failed'')
       \<and> (\<forall>addresses ip rest.
            LookupHost env domain = Some addresses \<and> filter usable addresses = ip # rest
            \<and> (DialTimeout env (ip @ '':80'') \<or> DialTimeout env (ip @ '':443'')) \<longrightarrow>
              IP r = ip # rest \<and> DNSResolved r \<and> PingAlive r \<and> Alive r \<and> StatusCode r = 200
              \<and> StatusText r = ''Alive'')"
  (is "?unresolved \<and> ?closed \<and> ?open")
proof -
  have ?unresolved
  proof (rule impI)
    assume "LookupHost env domain = None
            \<or> (\<exists>addresses. LookupHost env domain = Some addresses \<and> filter usable addresses = [])"
    then have "resolveDomain cfg env domain = []"
      unfolding usable_def by (auto simp: resolveDomain_None resolveDomain_Some)
    from validateSingleDomain_unresolved [OF this]
    show "IP r = [] \<and> \<not> DNSResolved r \<and> \<not> PingAlive r \<and> \<not> Alive r \<and> StatusCode r = - 1
          \<and> StatusText r = ''DNS Resolution Failed''"
      unfolding r_def by simp
  qed
  moreover have ?closed
  proof (intro allI impI)
    fix addresses ip rest
    assume a: "LookupHost env domain = Some addresses \<and> filter usable addresses = ip # rest
               \<and> \<not> DialTimeout env (ip @ '':80'') \<and> \<not> DialTimeout env (ip @ '':443'')"
    then have "resolveDomain cfg env domain = ip # rest"
      unfolding usable_def by (simp add: resolveDomain_Some)
    from validateSingleDomain_resolved [OF this] a
    show "IP r = ip # rest \<and> DNSResolved r \<and> \<not> PingAlive r \<and> \<not> Alive r \<and> StatusCode r = 0
          \<and> StatusText r = ''Ping Failed''"
      unfolding r_def by simp
  qed
  moreover have ?open
  proof (intro allI impI)
    fix addresses ip rest
    assume a: "LookupHost env domain = Some addresses \<and> filter usable addresses = ip # rest
               \<and> (DialTimeout env (ip @ '':80'') \<or> DialTimeout env (ip @ '':443''))"
    then have "resolveDomain cfg env domain = ip # rest"
      unfolding usable_def by (simp add: resolveDomain_Some)
    from validateSingleDomain_resolved [OF this] a
    show "IP r = ip # rest \<and> DNSResolved r \<and> PingAlive r \<and> Alive r \<and> StatusCode r = 200
          \<and> StatusText r = ''Alive''"
      unfolding r_def by simp
  qed
  ultimately show ?thesis
    by blast
qed

lemma private_10: "isPrivateIP (IP4 10 0 0 5)"
  by (simp add: isPrivateIP_def)

lemma public_1234: "\<not> isPrivateIP (IP4 1 2 3 4)"
  by (simp add: isPrivateIP_def)

text \<open>
  The statement at four inputs, under the default configuration: a name that does
  not resolve; a name whose only address is private (first case); a host with no
  open port (second case); a host whose lookup returns 10.0.0.5 before 1.2.3.4, so
  that 1.2.3.4 is the first usable address and is the one probed (second case,
  though port 80 of 10.0.0.5 answers); and a host that answers on port 443 only
  (third case).
\<close>

theorem validateSingleDomain_classifies_witness:
  "(LookupHost netDown ''a.example.com'' = None
    \<and> StatusCode (validateSingleDomain cfg0 netDown ''a.example.com'') = - 1
    \<and> StatusText (validateSingleDomain cfg0 netDown ''a.example.com'') = ''DNS Resolution Failed'')
 \<and> (LookupHost netClosed ''a.example.com'' = Some [''1.2.3.4'']
    \<and> \<not> DialTimeout netClosed ''1.2.3.4:80'' \<and> \<not> DialTimeout netClosed ''1.2.3.4:443''
    \<and> IP (validateSingleDomain cfg0 netClosed ''a.example.com'') = [''1.2.3.4'']
    \<and> \<not> Alive (validateSingleDomain cfg0 netClosed ''a.example.com'')
    \<and> StatusCode (validateSingleDomain cfg0 netClosed ''a.example.com'') = 0
    \<and> StatusText (validateSingleDomain cfg0 netClosed ''a.example.com'') = ''Ping Failed'')
 \<and> (LookupHost netMixed ''a.example.com'' = Some [''10.0.0.5'', ''1.2.3.4'']
    \<and> DialTimeout netMixed ''10.0.0.5:80''
    \<and> \<not> DialTimeout netMixed ''1.2.3.4:80'' \<and> \<not> DialTimeout netMixed ''1.2.3.4:443''
    \<and> IP (validateSingleDomain cfg0 netMixed ''a.example.com'') = [''1.2.3.4'']
    \<and> \<not> Alive (validateSingleDomain cfg0 netMixed ''a.example.com'')
    \<and> StatusCode (validateSingleDomain cfg0 netMixed ''a.example.com'') = 0
    \<and> StatusText (validateSingleDomain cfg0 netMixed ''a.example.com'') = ''Ping Failed'')
 \<and> (LookupHost netTLS ''a.example.com'' = Some [''1.2.3.4'']
    \<and> \<not> DialTimeout netTLS ''1.2.3.4:80'' \<and> DialTimeout netTLS ''1.2.3.4:443''
    \<and> IP (validateSingleDomain cfg0 netTLS ''a.example.com'') = [''1.2.3.4'']
    \<and> Alive (validateSingleDomain cfg0 netTLS ''a.example.com'')
    \<and> StatusCode (validateSingleDomain cfg0 netTLS ''a.example.com'') = 200
    \<and> StatusText (validateSingleDomain cfg0 netTLS ''a.example.com'') = ''Alive'')"
proof -
  have c1: "LookupHost netDown ''a.example.com'' = None"
    by (simp add: netDown_def)
  have c2: "LookupHost netClosed ''a.example.com'' = Some [''1.2.3.4'']
            \<and> ParseIP netClosed ''1.2.3.4'' = Some (IP4 1 2 3 4)
            \<and> \<not> DialTimeout netClosed ''1.2.3.4:80'' \<and> \<not> DialTimeout netClosed ''1.2.3.4:443''"
    by (simp add: netClosed_def)
  have c3: "LookupHost netMixed ''a.example.com'' = Some [''10.0.0.5'', ''1.2.3.4'']
            \<and> ParseIP netMixed ''10.0.0.5'' = Some (IP4 10 0 0 5)
            \<and> ParseIP netMixed ''1.2.3.4'' = Some (IP4 1 2 3 4)
            \<and> DialTimeout netMixed ''10.0.0.5:80''
            \<and> \<not> DialTimeout netMixed ''1.2.3.4:80'' \<and> \<not> DialTimeout netMixed ''1.2.3.4:443''"
    by (simp add: netMixed_def)
  have c4: "LookupHost netTLS ''a.example.com'' = Some [''1.2.3.4'']
            \<and> ParseIP netTLS ''1.2.3.4'' = Some (IP4 1 2 3 4)
            \<and> \<not> DialTimeout netTLS ''1.2.3.4:80'' \<and> DialTimeout netTLS ''1.2.3.4:443''"
    by (simp add: netTLS_def)
  have x: "ExcludePrivateIP cfg0"
    by (simp add: cfg0_def)
  show ?thesis
    using validateSingleDomain_classifies [of netDown "''a.example.com''" cfg0]
          validateSingleDomain_classifies [of netClosed "''a.example.com''" cfg0]
          validateSingleDomain_classifies [of netMixed "''a.example.com''" cfg0]
          validateSingleDomain_classifies [of netTLS "''a.example.com''" cfg0]
          c1 c2 c3 c4 x private_10 public_1234
    by simp
qed

text \<open>
  C1 as first worded does not hold: it reads "DNS succeeds" as the lookup returning
  an address. Under the default configuration (\<open>ExcludePrivateIP\<close> set) a host
  whose lookup returns the private address 10.0.0.5, and whose port 80 accepts the
  connection, is reported with status code -1 and "DNS Resolution Failed", not as
  alive with status code 200.
\<close>

theorem private_address_counterexample:
  "LookupHost netPrivate ''intranet.example.com'' = Some [''10.0.0.5'']
   \<and> DialTimeout netPrivate ''10.0.0.5:80''
   \<and> ExcludePrivateIP cfg0
   \<and> \<not> DNSResolved (validateSingleDomain cfg0 netPrivate ''intranet.example.com'')
   \<and> \<not> Alive (validateSingleDomain cfg0 netPrivate ''intranet.example.com'')
   \<and> StatusCode (validateSingleDomain cfg0 netPrivate ''intranet.example.com'') = - 1
   \<and> StatusText (validateSingleDomain cfg0 netPrivate ''intranet.example.com'')
       = ''DNS Resolution Failed''"
proof -
  have "resolveDomain cfg0 netPrivate ''intranet.example.com'' = []"
    by (simp add: resolveDomain_def netPrivate_def cfg0_def private_10)
  from validateSingleDomain_unresolved [OF this]
  show ?thesis
    by (simp add: netPrivate_def cfg0_def)
qed

section \<open>Wildcard detection\<close>

lemma NewBrute_concurrent: "concurrent (NewBrute cfg) > 0"
  by (simp add: NewBrute_def initDictPaths_def Let_def)

lemma publicBrute_ns: "nameservers publicBrute =
    [''8.8.8.8'', ''8.8.4.4'', ''1.1.1.1'', ''1.0.0.1'', ''114.114.114.114'', ''114.114.115.115'']"
  by (simp add: publicBrute_def)

lemma publicBrute_wordlist: "wordlist publicBrute = ''data/subnames.txt''"
  by (simp add: publicBrute_def NewBrute_def initDictPaths_def Let_def cfg0_def)

lemma publicBrute_concurrent: "concurrent publicBrute > 0"
  by (simp add: publicBrute_def NewBrute_concurrent)

lemma probeUpdate_fields:
  "TestCount (fst (probeUpdate b env st s)) = TestCount (fst st)
   \<and> SuccessRate (fst (probeUpdate b env st s)) = SuccessRate (fst st)
   \<and> IPRepeatRate (fst (probeUpdate b env st s)) = IPRepeatRate (fst st)
   \<and> TestSubdomains (fst (probeUpdate b env st s)) = TestSubdomains (fst st)
   \<and> SuccessCount (fst (probeUpdate b env st s)) =
       SuccessCount (fst st) + (if Valid (querySubdomain b env s) then 1 else 0)"
  by (simp add: probeUpdate_def Let_def)

lemma probes_fields:
  "TestCount (fst (foldl (probeUpdate b env) st subs)) = TestCount (fst st)
   \<and> SuccessRate (fst (foldl (probeUpdate b env) st subs)) = SuccessRate (fst st)
   \<and> IPRepeatRate (fst (foldl (probeUpdate b env) st subs)) = IPRepeatRate (fst st)
   \<and> TestSubdomains (fst (foldl (probeUpdate b env) st subs)) = TestSubdomains (fst st)
   \<and> SuccessCount (fst (foldl (probeUpdate b env) st subs)) =
       SuccessCount (fst st) + int (length (filter (\<lambda>s. Valid (querySubdomain b env s)) subs))"
proof (induction subs arbitrary: st)
  case Nil
  show ?case by simp
next
  case (Cons s subs)
  show ?case
    using Cons.IH [of "probeUpdate b env st s"] probeUpdate_fields [of b env st s]
    by simp
qed

lemma calculateStatistics_fields:
  "TestCount (calculateStatistics r m) = TestCount r
   \<and> SuccessCount (calculateStatistics r m) = SuccessCount r
   \<and> TestSubdomains (calculateStatistics r m) = TestSubdomains r
   \<and> UniqueIPs (calculateStatistics r m) = int (length m)
   \<and> TotalIPs (calculateStatistics r m) = sum_list (map snd m)
   \<and> SuccessRate (calculateStatistics r m) =
       (if TestCount r > 0 then of_int (SuccessCount r) / of_int (TestCount r) * 100 else SuccessRate r)
   \<and> IPRepeatRate (calculateStatistics r m) =
       (if sum_list (map snd m) > 0
        then of_int (sum_list (map snd m) - int (length m)) / of_int (sum_list (map snd m)) * 100
        else IPRepeatRate r)"
  by (simp add: calculateStatistics_def Let_def)


lemma detectWildcardAdvanced_subdomains:
  assumes "detectWildcardAdvanced b env target = Some r"
  shows "generateRandomTestSubdomains b env target 20 = Some (TestSubdomains r)"
proof -
  from assms obtain subs where
    gen: "generateRandomTestSubdomains b env target 20 = Some subs" and sem: "semaphoreOk b subs"
    by (auto simp: detectWildcardAdvanced_def Let_def split: option.splits if_splits)
  define st where "st = foldl (probeUpdate b env)
      (\<lparr> IsWildcard = False, SuccessRate = 0, IPRepeatRate = 0, TestCount = 20,
         SuccessCount = 0, UniqueIPs = 0, TotalIPs = 0, TestSubdomains = subs, TestResults = [] \<rparr>, []) subs"
  define rs where "rs = calculateStatistics (fst st) (snd st)"
  have r: "r = rs\<lparr> IsWildcard := (SuccessRate rs > 90 \<and> IPRepeatRate rs > 50) \<rparr>"
    using assms gen sem by (simp add: detectWildcardAdvanced_def Let_def st_def rs_def)
  have "TestSubdomains (fst st) = subs"
    unfolding st_def using probes_fields by simp
  then have "TestSubdomains rs = subs"
    using calculateStatistics_fields [of "fst st" "snd st"] by (simp add: rs_def)
  then show ?thesis using r gen by simp
qed






lemma querySubdomain_resolved:
  "queryA b env s = Inr [ip] \<Longrightarrow> Valid (querySubdomain b env s) \<and> IPs (querySubdomain b env s) = [ip]"
  by (simp add: querySubdomain_def Let_def)

lemma probes_same_ip_from:
  assumes "\<forall>s \<in> set subs. queryA b env s = Inr [ip]"
  shows "snd (foldl (probeUpdate b env) (r, [(ip, c)]) subs) = [(ip, c + int (length subs))]"
  using assms
proof (induction subs arbitrary: r c)
  case Nil
  show ?case by simp
next
  case (Cons s subs)
  have q: "Valid (querySubdomain b env s) \<and> IPs (querySubdomain b env s) = [ip]"
    using Cons.prems querySubdomain_resolved by simp
  obtain r' where step: "probeUpdate b env (r, [(ip, c)]) s = (r', [(ip, c + 1)])"
    using q by (simp add: probeUpdate_def Let_def)
  show ?case using Cons.IH [of r' "c + 1"] Cons.prems step by simp
qed

lemma probes_same_ip:
  assumes "\<forall>s \<in> set subs. queryA b env s = Inr [ip]" and "subs \<noteq> []"
  shows "snd (foldl (probeUpdate b env) (r, []) subs) = [(ip, int (length subs))]"
proof -
  obtain s rest where subs: "subs = s # rest" using assms(2) by (cases subs) auto
  have q: "Valid (querySubdomain b env s) \<and> IPs (querySubdomain b env s) = [ip]"
    using assms(1) subs querySubdomain_resolved by simp
  obtain r' where step: "probeUpdate b env (r, []) s = (r', [(ip, 1)])"
    using q by (simp add: probeUpdate_def Let_def)
  show ?thesis using probes_same_ip_from [of rest b env ip r' 1] assms(1) subs step by simp
qed

lemma nsLoop_concurrent: "concurrent (nsLoop env b nss) = concurrent b"
  by (induction nss arbitrary: b) (auto split: sum.splits)

lemma getNameservers_concurrent:
  "getNameservers b env target = (b', e) \<Longrightarrow> concurrent b' = concurrent b"
  by (auto simp: getNameservers_def Let_def nsLoop_concurrent split: sum.splits if_splits)

lemma same_ip_detect:
  assumes conc: "concurrent b0 > 0"
      and ns: "getNameservers (initDictPaths b0) env target = (b1, None)"
      and gen: "generateRandomTestSubdomains b1 env target 20 = Some subs"
      and len: "length subs = 20"
      and same: "\<forall>s \<in> set subs. queryA b1 env s = Inr [ip]"
  shows "(\<exists>r. detectWildcardAdvanced b1 env target = Some r
            \<and> SuccessCount r = 20 \<and> TotalIPs r = 20 \<and> UniqueIPs r = 1
            \<and> SuccessRate r = 100 \<and> IPRepeatRate r = 95 \<and> IsWildcard r)
       \<and> Run b0 env target = Some (b1, Inr [])"
proof -
  define r0 :: WildcardDetectionResult where
    "r0 = \<lparr> IsWildcard = False, SuccessRate = 0, IPRepeatRate = 0, TestCount = 20,
             SuccessCount = 0, UniqueIPs = 0, TotalIPs = 0, TestSubdomains = [], TestResults = [] \<rparr>"
  define st where "st = foldl (probeUpdate b1 env) (r0\<lparr> TestSubdomains := subs \<rparr>, []) subs"
  define rs where "rs = calculateStatistics (fst st) (snd st)"
  define r where "r = rs\<lparr> IsWildcard := (SuccessRate rs > 90 \<and> IPRepeatRate rs > 50) \<rparr>"
  have "concurrent b1 = concurrent b0"
    using getNameservers_concurrent [OF ns] by (simp add: initDictPaths_def)
  then have sem: "semaphoreOk b1 subs"
    using conc by (simp add: semaphoreOk_def)
  have det: "detectWildcardAdvanced b1 env target = Some r"
    using gen sem by (simp add: detectWildcardAdvanced_def Let_def r0_def st_def rs_def r_def)
  have valid: "filter (\<lambda>s. Valid (querySubdomain b1 env s)) subs = subs"
    using same querySubdomain_resolved by (simp add: filter_id_conv)
  have st1: "TestCount (fst st) = 20" "SuccessCount (fst st) = 20"
    using probes_fields [of b1 env "(r0\<lparr> TestSubdomains := subs \<rparr>, [])" subs] valid len
    by (simp_all add: st_def r0_def)
  have "subs \<noteq> []" using len by auto
  then have st2: "snd st = [(ip, 20)]"
    using probes_same_ip [OF same, of "r0\<lparr> TestSubdomains := subs \<rparr>"] len by (simp add: st_def)
  have rs: "SuccessCount rs = 20" "TotalIPs rs = 20" "UniqueIPs rs = 1"
           "SuccessRate rs = 100" "IPRepeatRate rs = 95"
    using calculateStatistics_fields [of "fst st" "snd st"] st1 st2 by (simp_all add: rs_def)
  have wild: "SuccessCount r = 20 \<and> TotalIPs r = 20 \<and> UniqueIPs r = 1
            \<and> SuccessRate r = 100 \<and> IPRepeatRate r = 95 \<and> IsWildcard r"
    using rs by (simp add: r_def)
  have run: "Run b0 env target = Some (b1, Inr [])"
    using ns det wild by (simp add: Run_def Let_def)
  show ?thesis using det wild run by blast
qed

text \<open>
  C3, as amended. When the engine runs at least one probe at a time (\<open>NewBrute\<close>
  sees to that), the name servers have been obtained and all 20 wildcard probes
  resolve to the same single IP (1 unique IP out of 20 resolved IPs), the detection
  computes a success rate of 100 and an IP repeat rate of (20 - 1) / 20 * 100 = 95,
  hence reports a wildcard, and \<open>Run\<close> returns the empty list with no error,
  without running the dictionary phase.
\<close>

theorem same_ip_wildcard:
  assumes conc: "concurrent b0 > 0"
      and ns: "getNameservers (initDictPaths b0) env target = (b1, None)"
      and gen: "generateRandomTestSubdomains b1 env target 20 = Some subs"
      and len: "length subs = 20"
      and same: "\<forall>s \<in> set subs. queryA b1 env s = Inr [ip]"
  shows "(\<exists>r. detectWildcardAdvanced b1 env target = Some r
            \<and> SuccessCount r = 20 \<and> TotalIPs r = 20 \<and> UniqueIPs r = 1
            \<and> SuccessRate r = 100 \<and> IPRepeatRate r = 95 \<and> IsWildcard r)
       \<and> Run b0 env target = Some (b1, Inr [])"
  by (rule same_ip_detect [OF conc ns gen len same])

lemma sameIP_getNameservers:
  "getNameservers (initDictPaths (NewBrute cfg0)) sameIPEnv ''example.com'' = (publicBrute, None)"
  by (simp add: getNameservers_def queryNS_def sameIPEnv_def getPublicNameservers_def publicBrute_def
        NewBrute_def initDictPaths_def Let_def cfg0_def)

lemma sameIP_generate:
  "generateRandomTestSubdomains publicBrute sameIPEnv ''example.com'' 20
     = Some (map (\<lambda>word. word @ ''.example.com'') defaultWords)"
  by (simp add: generateRandomTestSubdomains_def selectRandomWords_def loadWordlist_def
        publicBrute_wordlist sameIPEnv_def defaultWords_def Let_def)

lemma sameIP_queryA: "queryA publicBrute sameIPEnv s = Inr [''5.5.5.5'']"
  by (simp add: queryA_def publicBrute_ns sameIPEnv_def)

theorem same_ip_wildcard_witness:
  "(\<exists>r. detectWildcardAdvanced publicBrute sameIPEnv ''example.com'' = Some r
            \<and> SuccessCount r = 20 \<and> TotalIPs r = 20 \<and> UniqueIPs r = 1
            \<and> SuccessRate r = 100 \<and> IPRepeatRate r = 95 \<and> IsWildcard r)
   \<and> Run (NewBrute cfg0) sameIPEnv ''example.com'' = Some (publicBrute, Inr [])"
proof -
  have len: "length (map (\<lambda>word. word @ ''.example.com'') defaultWords) = 20"
    by (simp add: defaultWords_def)
  have same: "\<forall>s \<in> set (map (\<lambda>word. word @ ''.example.com'') defaultWords).
                queryA publicBrute sameIPEnv s = Inr [''5.5.5.5'']"
    using sameIP_queryA by simp
  show ?thesis
    by (rule same_ip_wildcard [OF NewBrute_concurrent sameIP_getNameservers sameIP_generate len same])
qed

text \<open>
  C3 as stated fails: against the stub that answers every A question with 5.5.5.5,
  all 20 probes resolve to that address and the IP repeat rate is 95, not 100.
\<close>

theorem same_ip_repeat_rate_counterexample:
  "map (queryA publicBrute sameIPEnv) (map (\<lambda>word. word @ ''.example.com'') defaultWords)
     = replicate 20 (Inr [''5.5.5.5''])
   \<and> map_option TestSubdomains (detectWildcardAdvanced publicBrute sameIPEnv ''example.com'')
     = Some (map (\<lambda>word. word @ ''.example.com'') defaultWords)
   \<and> map_option SuccessRate (detectWildcardAdvanced publicBrute sameIPEnv ''example.com'') = Some 100
   \<and> map_option IPRepeatRate (detectWildcardAdvanced publicBrute sameIPEnv ''example.com'') = Some 95
   \<and> map_option IPRepeatRate (detectWildcardAdvanced publicBrute sameIPEnv ''example.com'') \<noteq> Some 100"
proof -
  have len: "length (map (\<lambda>word. word @ ''.example.com'') defaultWords) = 20"
    by (simp add: defaultWords_def)
  have same: "\<forall>s \<in> set (map (\<lambda>word. word @ ''.example.com'') defaultWords).
                queryA publicBrute sameIPEnv s = Inr [''5.5.5.5'']"
    using sameIP_queryA by simp
  obtain r where r: "detectWildcardAdvanced publicBrute sameIPEnv ''example.com'' = Some r"
      "SuccessRate r = 100" "IPRepeatRate r = 95"
    using same_ip_detect [OF NewBrute_concurrent sameIP_getNameservers sameIP_generate len same] by blast
  have subs: "TestSubdomains r = map (\<lambda>word. word @ ''.example.com'') defaultWords"
    using detectWildcardAdvanced_subdomains [OF r(1)] sameIP_generate by simp
  have all: "map (queryA publicBrute sameIPEnv) (map (\<lambda>word. word @ ''.example.com'') defaultWords)
     = replicate 20 (Inr [''5.5.5.5''])"
    by (simp add: sameIP_queryA defaultWords_def eval_nat_numeral)
  show ?thesis using r subs all by simp
qed

section \<open>Dictionary phase: which candidates are valid\<close>

lemma cnameEnv_queryA: "queryA publicBrute cnameEnv s = Inl (NoARecord s)"
  by (simp add: queryA_def publicBrute_ns cnameEnv_def)

lemma cnameEnv_queryCNAME: "queryCNAME publicBrute cnameEnv s = Inr [''cdn.example.net'']"
  by (simp add: queryCNAME_def publicBrute_ns cnameEnv_def TrimSuffix_def HasSuffix_def)

lemma publicBrute_results: "results publicBrute = []"
  by (simp add: publicBrute_def NewBrute_def initDictPaths_def Let_def)

text \<open>
  C7 (amended). For every candidate tested in the dictionary phase, its result is
  marked valid if and only if the A query found at least one IP. \<open>querySubdomain\<close>
  asks for A records only: the CNAME list of a result is always empty, so that the
  test \<open>isValidSubdomain\<close> (an IP or a CNAME) amounts to the valid mark, and the
  engine records the candidate exactly when it is valid. A candidate that resolves
  only to a CNAME is not valid.
\<close>

theorem querySubdomain_valid_iff_A_record:
  "Valid (querySubdomain b env s) = (\<exists>ips. queryA b env s = Inr ips \<and> ips \<noteq> [])
   \<and> Valid (querySubdomain b env s) = (IPs (querySubdomain b env s) \<noteq> [])
   \<and> CNAMEs (querySubdomain b env s) = []
   \<and> isValidSubdomain (querySubdomain b env s) = Valid (querySubdomain b env s)
   \<and> results (bruteUpdate env b s) =
       (if Valid (querySubdomain b env s) then assign s (querySubdomain b env s) (results b)
        else results b)"
  by (auto simp: querySubdomain_def isValidSubdomain_def bruteUpdate_def Let_def split: sum.splits)

text \<open>
  The statement at a candidate that has a CNAME record only, and at one that has an A
  record.
\<close>

theorem querySubdomain_valid_iff_A_record_witness:
  "\<not> Valid (querySubdomain publicBrute cnameEnv ''www.example.com'')
   \<and> results (bruteUpdate cnameEnv publicBrute ''www.example.com'') = []
   \<and> Valid (querySubdomain publicBrute sameIPEnv ''www.example.com'')
   \<and> IPs (querySubdomain publicBrute sameIPEnv ''www.example.com'') = [''5.5.5.5'']
   \<and> map fst (results (bruteUpdate sameIPEnv publicBrute ''www.example.com'')) = [''www.example.com'']"
  using querySubdomain_valid_iff_A_record [of publicBrute cnameEnv "''www.example.com''"]
        querySubdomain_valid_iff_A_record [of publicBrute sameIPEnv "''www.example.com''"]
        cnameEnv_queryA sameIP_queryA publicBrute_results
  by (simp add: querySubdomain_def)

text \<open>
  C7 as first worded does not hold: against a resolver that answers every A and CNAME
  question with one CNAME record and no A record, the candidate has a CNAME, yet its
  result is not valid and the dictionary phase records nothing.
\<close>

theorem cname_only_counterexample:
  "queryCNAME publicBrute cnameEnv ''www.example.com'' = Inr [''cdn.example.net'']
   \<and> queryA publicBrute cnameEnv ''www.example.com'' = Inl (NoARecord ''www.example.com'')
   \<and> Valid (querySubdomain publicBrute cnameEnv ''www.example.com'') = False
   \<and> isValidSubdomain (querySubdomain publicBrute cnameEnv ''www.example.com'') = False
   \<and> map_option results (bruteSubdomains publicBrute cnameEnv ''example.com'' [''www.example.com''])
       = Some []"
  using cnameEnv_queryA cnameEnv_queryCNAME publicBrute_results publicBrute_concurrent
  by (simp add: querySubdomain_def bruteSubdomains_def bruteUpdate_def isValidSubdomain_def
        semaphoreOk_def Let_def)

section \<open>Dictionary phase: the candidates\<close>

text \<open>What \<open>strings.TrimSpace\<close> leaves neither starts nor ends with white space.\<close>

lemma find_SomeD: "find P xs = Some x \<Longrightarrow> P x \<and> x \<in> set xs"
  by (induction xs) (auto split: if_splits)

lemma spaceEncodings_nonempty: "[] \<notin> set spaceEncodings"
  by (simp add: spaceEncodings_def)

lemma find_width_0_iff:
  assumes "[] \<notin> set es"
  shows "(case find P es of None \<Rightarrow> 0 | Some e \<Rightarrow> length e) = (0::nat) \<longleftrightarrow> (\<forall>e \<in> set es. \<not> P e)"
proof (cases "find P es")
  case None
  have "\<forall>e \<in> set es. \<not> P e"
    using None by (auto simp: find_None_iff)
  then show ?thesis using None by simp
next
  case (Some e)
  then have "P e \<and> e \<in> set es" by (rule find_SomeD)
  then show ?thesis using Some assms by auto
qed

lemma spaceWidth_0_iff: "spaceWidth s = 0 \<longleftrightarrow> (\<forall>e \<in> set spaceEncodings. \<not> HasPrefix s e)"
  unfolding spaceWidth_def by (rule find_width_0_iff [OF spaceEncodings_nonempty])

lemma lastSpaceWidth_0_iff: "lastSpaceWidth s = 0 \<longleftrightarrow> (\<forall>e \<in> set spaceEncodings. \<not> HasSuffix s e)"
  unfolding lastSpaceWidth_def by (rule find_width_0_iff [OF spaceEncodings_nonempty])
lemma spaceWidth_Nil: "spaceWidth [] = 0"
  using spaceEncodings_nonempty by (auto simp: spaceWidth_0_iff HasPrefix_def)

lemma lastSpaceWidth_Nil: "lastSpaceWidth [] = 0"
  using spaceEncodings_nonempty by (auto simp: lastSpaceWidth_0_iff HasSuffix_def)

lemma spaceWidth_TrimLeft: "spaceWidth (TrimLeft s) = 0"
proof (induction s rule: TrimLeft.induct)
  case (1 s)
  show ?case
  proof (cases "spaceWidth s = 0 \<or> s = []")
    case True
    then have "TrimLeft s = s" using TrimLeft.simps [of s] by simp
    then show ?thesis using True spaceWidth_Nil by auto
  next
    case False
    then have "TrimLeft s = TrimLeft (drop (spaceWidth s) s)" using TrimLeft.simps [of s] by simp
    then show ?thesis using 1 False by simp
  qed
qed

lemma lastSpaceWidth_TrimRight: "lastSpaceWidth (TrimRight s) = 0"
proof (induction s rule: TrimRight.induct)
  case (1 s)
  show ?case
  proof (cases "lastSpaceWidth s = 0 \<or> s = []")
    case True
    then have "TrimRight s = s" using TrimRight.simps [of s] by simp
    then show ?thesis using True lastSpaceWidth_Nil by auto
  next
    case False
    then have "TrimRight s = TrimRight (take (length s - lastSpaceWidth s) s)" using TrimRight.simps [of s] by simp
    then show ?thesis using 1 False by simp
  qed
qed

lemma TrimRight_take: "\<exists>n. TrimRight s = take n s"
proof (induction s rule: TrimRight.induct)
  case (1 s)
  show ?case
  proof (cases "lastSpaceWidth s = 0 \<or> s = []")
    case True
    then have "TrimRight s = take (length s) s" using TrimRight.simps [of s] by simp
    then show ?thesis by blast
  next
    case False
    then have eq: "TrimRight s = TrimRight (take (length s - lastSpaceWidth s) s)" using TrimRight.simps [of s] by simp
    from 1 False obtain n where
      "TrimRight (take (length s - lastSpaceWidth s) s) = take n (take (length s - lastSpaceWidth s) s)"
      by blast
    then have "TrimRight s = take (min n (length s - lastSpaceWidth s)) s"
      using eq by (simp add: min.commute)
    then show ?thesis by blast
  qed
qed

lemma HasPrefix_take: "HasPrefix (take n t) e \<Longrightarrow> HasPrefix t e"
  unfolding HasPrefix_def
  by (metis append_eq_conv_conj append_take_drop_id take_take min.commute length_take min_def take_all_iff)

lemma spaceWidth_TrimSpace: "spaceWidth (TrimSpace s) = 0"
proof -
  obtain n where n: "TrimSpace s = take n (TrimLeft s)"
    using TrimRight_take [of "TrimLeft s"] by (auto simp: TrimSpace_def)
  have "\<forall>e \<in> set spaceEncodings. \<not> HasPrefix (TrimLeft s) e"
    using spaceWidth_TrimLeft [of s] by (simp add: spaceWidth_0_iff)
  then have "\<forall>e \<in> set spaceEncodings. \<not> HasPrefix (take n (TrimLeft s)) e"
    using HasPrefix_take by blast
  then show ?thesis using n by (simp add: spaceWidth_0_iff)
qed

lemma lastSpaceWidth_TrimSpace: "lastSpaceWidth (TrimSpace s) = 0"
  by (simp add: TrimSpace_def lastSpaceWidth_TrimRight)

lemma asciiSpace_encoding: "asciiSpace c \<Longrightarrow> [c] \<in> set spaceEncodings"
  by (auto simp: asciiSpace_def spaceEncodings_def)

lemma HasPrefix_hd: "s \<noteq> [] \<Longrightarrow> HasPrefix s [hd s]"
  by (cases s) (simp_all add: HasPrefix_def)

lemma HasSuffix_last: "s \<noteq> [] \<Longrightarrow> HasSuffix s [last s]"
  by (cases s rule: rev_cases) (simp_all add: HasSuffix_def)

lemma TrimSpace_ends:
  assumes "TrimSpace s \<noteq> []"
  shows "\<not> asciiSpace (hd (TrimSpace s)) \<and> \<not> asciiSpace (last (TrimSpace s))"
proof -
  have "\<not> HasPrefix (TrimSpace s) [hd (TrimSpace s)]" if "asciiSpace (hd (TrimSpace s))"
    using spaceWidth_TrimSpace [of s] asciiSpace_encoding [OF that] by (simp add: spaceWidth_0_iff)
  moreover have "\<not> HasSuffix (TrimSpace s) [last (TrimSpace s)]" if "asciiSpace (last (TrimSpace s))"
    using lastSpaceWidth_TrimSpace [of s] asciiSpace_encoding [OF that] by (simp add: lastSpaceWidth_0_iff)
  ultimately show ?thesis
    using HasPrefix_hd [OF assms] HasSuffix_last [OF assms] by blast
qed

lemma HasSuffix_append: "HasSuffix (u @ v) v"
  by (simp add: HasSuffix_def)

lemma generateDict_Inr:
  assumes "generateDict b env target = Inr subdomains"
  shows "\<exists>lines. OpenScan env (if recursive b then nextlist b else wordlist b) = Some (lines, False)
           \<and> subdomains = map (\<lambda>line. TrimSpace line @ ''.'' @ target)
                (filter (\<lambda>line. TrimSpace line \<noteq> '''' \<and> \<not> HasPrefix (TrimSpace line) ''#'') lines)"
  using assms
  by (auto simp: generateDict_def Let_def filter_map comp_def split: option.splits if_splits)

text \<open>
  C8 (amended). For every wordlist file that is read without error, the candidates
  are, in the order of the file, \<open>label @ "." @ domain\<close> for the lines whose trimmed
  form \<open>label = TrimSpace line\<close> is not empty and does not start with \<open>#\<close>; lines
  that are blank or whose trimmed form starts with \<open>#\<close> yield no candidate. The
  label of a candidate neither starts nor ends with white space. Every candidate ends
  with \<open>"." @ domain\<close> and differs from the domain. (White space and control
  characters inside a line are kept.)
\<close>

theorem generateDict_candidates:
  assumes "generateDict b env target = Inr subdomains"
  shows "(\<exists>lines. OpenScan env (if recursive b then nextlist b else wordlist b) = Some (lines, False)
           \<and> subdomains = map (\<lambda>line. TrimSpace line @ ''.'' @ target)
                (filter (\<lambda>line. TrimSpace line \<noteq> '''' \<and> \<not> HasPrefix (TrimSpace line) ''#'') lines))
       \<and> (\<forall>c \<in> set subdomains.
            \<exists>label. c = label @ ''.'' @ target \<and> label \<noteq> '''' \<and> \<not> HasPrefix label ''#''
              \<and> \<not> asciiSpace (hd label) \<and> \<not> asciiSpace (last label)
              \<and> (\<forall>e \<in> set spaceEncodings. \<not> HasPrefix label e \<and> \<not> HasSuffix label e))
       \<and> (\<forall>c \<in> set subdomains. HasSuffix c (''.'' @ target) \<and> c \<noteq> target)"
proof -
  from generateDict_Inr [OF assms] obtain lines where
    ls: "OpenScan env (if recursive b then nextlist b else wordlist b) = Some (lines, False)"
    and subs: "subdomains = map (\<lambda>line. TrimSpace line @ ''.'' @ target)
                (filter (\<lambda>line. TrimSpace line \<noteq> '''' \<and> \<not> HasPrefix (TrimSpace line) ''#'') lines)"
    by blast
  have label: "\<exists>label. c = label @ ''.'' @ target \<and> label \<noteq> '''' \<and> \<not> HasPrefix label ''#''
              \<and> \<not> asciiSpace (hd label) \<and> \<not> asciiSpace (last label)
              \<and> (\<forall>e \<in> set spaceEncodings. \<not> HasPrefix label e \<and> \<not> HasSuffix label e)"
    if "c \<in> set subdomains" for c
  proof -
    from that subs obtain line where
      c: "c = TrimSpace line @ ''.'' @ target" and ne: "TrimSpace line \<noteq> ''''"
      and nh: "\<not> HasPrefix (TrimSpace line) ''#''"
      by auto
    have "\<forall>e \<in> set spaceEncodings. \<not> HasPrefix (TrimSpace line) e \<and> \<not> HasSuffix (TrimSpace line) e"
      using spaceWidth_TrimSpace [of line] lastSpaceWidth_TrimSpace [of line]
      by (simp add: spaceWidth_0_iff lastSpaceWidth_0_iff)
    then show ?thesis
      using c ne nh TrimSpace_ends [OF ne] by blast
  qed
  have suffix: "HasSuffix c (''.'' @ target) \<and> c \<noteq> target" if "c \<in> set subdomains" for c
  proof -
    from label [OF that] obtain label where c: "c = label @ ''.'' @ target"
      by blast
    have "HasSuffix c (''.'' @ target)"
      using HasSuffix_append [of label "''.'' @ target"] c by simp
    moreover have "length c > length target"
      using c by simp
    ultimately show ?thesis
      by auto
  qed
  show ?thesis
    using ls subs label suffix by blast
qed

text \<open>
  A wordlist with a label that has a space inside, a comment, a blank line and a
  padded label.
\<close>

lemma TrimSpace_padded: "TrimSpace ''  www  '' = ''www''"
  by (simp add: TrimSpace_def TrimLeft.simps TrimRight.simps spaceWidth_def lastSpaceWidth_def
        spaceEncodings_def HasPrefix_def HasSuffix_def)

lemma TrimSpace_inner: "TrimSpace ''a b'' = ''a b''"
  by (simp add: TrimSpace_def TrimLeft.simps TrimRight.simps spaceWidth_def lastSpaceWidth_def
        spaceEncodings_def HasPrefix_def HasSuffix_def)

lemma TrimSpace_empty: "TrimSpace '''' = ''''"
  by (simp add: TrimSpace_def TrimLeft.simps TrimRight.simps)

lemma TrimSpace_comment: "TrimSpace ''# comment'' = ''# comment''"
  by (simp add: TrimSpace_def TrimLeft.simps TrimRight.simps spaceWidth_def lastSpaceWidth_def
        spaceEncodings_def HasPrefix_def HasSuffix_def)

lemma wsEnv_generateDict:
  "generateDict (NewBrute cfg0) wsEnv ''example.com'' = Inr [''a b.example.com'', ''www.example.com'']"
  by (simp add: generateDict_def NewBrute_def initDictPaths_def cfg0_def wsEnv_def Let_def TrimSpace_padded TrimSpace_inner TrimSpace_empty
        TrimSpace_comment HasPrefix_def)

theorem generateDict_candidates_witness:
  "generateDict (NewBrute cfg0) wsEnv ''example.com'' = Inr [''a b.example.com'', ''www.example.com'']
   \<and> HasSuffix ''a b.example.com'' ''.example.com'' \<and> ''a b.example.com'' \<noteq> ''example.com''
   \<and> HasSuffix ''www.example.com'' ''.example.com'' \<and> ''www.example.com'' \<noteq> ''example.com''
   \<and> (\<exists>label. ''www.example.com'' = label @ ''.example.com'' \<and> label \<noteq> ''''
         \<and> \<not> asciiSpace (hd label) \<and> \<not> asciiSpace (last label))"
  using generateDict_candidates [OF wsEnv_generateDict] wsEnv_generateDict
  by auto

text \<open>
  C8 as first worded does not hold: the line \<open>a b\<close> yields the candidate
  \<open>a b.example.com\<close>, which contains a space.
\<close>

theorem interior_space_counterexample:
  "OpenScan wsEnv (wordlist (NewBrute cfg0)) = Some ([''a b'', ''# comment'', '''', ''  www  ''], False)
   \<and> generateDict (NewBrute cfg0) wsEnv ''example.com'' = Inr [''a b.example.com'', ''www.example.com'']
   \<and> CHR '' '' \<in> set ''a b.example.com''"
  using wsEnv_generateDict by (simp add: wsEnv_def)

end
